theory Spec2Isabelle
  imports Main
begin

section \<open>Python values\<close>

text \<open>
  An exception is its class name and the text \<open>str(e)\<close> that the handlers of
  \<^verbatim>\<open>server.py\<close> interpolate into their messages. Every handler of the file is
  \<^verbatim>\<open>except Exception\<close>: it catches an \<open>Exception\<close> and lets pass what derives from
  \<^verbatim>\<open>BaseException\<close> alone (\<^verbatim>\<open>KeyboardInterrupt\<close>, \<^verbatim>\<open>SystemExit\<close>,
  \<^verbatim>\<open>asyncio.CancelledError\<close>).
\<close>

datatype exn =
    Exception (exn_class: string) (exn_msg: string)
  | BaseException (exn_class: string) (exn_msg: string)

fun caught :: "exn \<Rightarrow> bool" where
  "caught (Exception _ _) = True"
| "caught (BaseException _ _) = False"

text \<open>
  A computation that may raise is a value of \<open>exn + 'a\<close>, \<open>Inl\<close> the raised exception.
  \<open>then_do\<close> runs the next statement unless the previous one raised.
\<close>

definition then_do :: "exn + 'a \<Rightarrow> ('a \<Rightarrow> exn + 'b) \<Rightarrow> exn + 'b" where
  "then_do m f = (case m of Inl e \<Rightarrow> Inl e | Inr x \<Rightarrow> f x)"

definition quote :: "string \<Rightarrow> string" where
  "quote s = [CHR 0x27] @ s @ [CHR 0x27]"

text \<open>A \<^verbatim>\<open>pd.Timestamp\<close>: calendar date and the time within the day.\<close>

datatype timestamp = Timestamp (ts_year: nat) (ts_month: nat) (ts_day: nat) (ts_nanos: nat)

definition digit :: "nat \<Rightarrow> char" where
  "digit n = ''0123456789'' ! (n mod 10)"

text \<open>A number in decimal, without padding.\<close>

function dec :: "nat \<Rightarrow> string" where
  "dec n = (if n < 10 then [digit n] else dec (n div 10) @ [digit n])"
  by pat_completeness auto
termination
  by (relation "measure id") auto

declare dec.simps [simp del]

text \<open>\<^verbatim>\<open>%m\<close> and \<^verbatim>\<open>%d\<close>: two digits, a leading zero below ten.\<close>

definition pad2 :: "nat \<Rightarrow> string" where
  "pad2 n = (if n < 10 then CHR ''0'' # dec n else dec n)"

text \<open>
  \<^verbatim>\<open>column.strftime("%Y-%m-%d")\<close>. pandas first builds a \<^verbatim>\<open>datetime\<close> of the same date,
  which exists for the calendar days of the years 1 to 9999 only, and raises
  \<^verbatim>\<open>NotImplementedError\<close> when that fails; the C library then prints \<^verbatim>\<open>%Y\<close> as the year's decimal, which has four digits from
  the year 1000 on and fewer before.
\<close>

definition leap :: "nat \<Rightarrow> bool" where
  "leap y = (y mod 4 = 0 \<and> (y mod 100 \<noteq> 0 \<or> y mod 400 = 0))"

definition days_in_month :: "nat \<Rightarrow> nat \<Rightarrow> nat" where
  "days_in_month y m =
     (if m = 2 then (if leap y then 29 else 28)
      else if m = 4 \<or> m = 6 \<or> m = 9 \<or> m = 11 then 30 else 31)"

definition datetime_ok :: "timestamp \<Rightarrow> bool" where
  "datetime_ok t =
     (1 \<le> ts_year t \<and> ts_year t \<le> 9999 \<and> 1 \<le> ts_month t \<and> ts_month t \<le> 12
      \<and> 1 \<le> ts_day t \<and> ts_day t \<le> days_in_month (ts_year t) (ts_month t))"

definition out_of_range :: exn where
  "out_of_range = Exception ''NotImplementedError''
     (''strftime not yet supported on Timestamps which are outside the range of Python''
      @ [CHR 0x27] @ ''s standard library. For now, please call the components you need (such as ''
      @ [CHR 0x60] @ ''.year'' @ [CHR 0x60] @ '' and '' @ [CHR 0x60] @ ''.month'' @ [CHR 0x60]
      @ '') and construct your string from there.'')"

definition strftime_Ymd :: "timestamp \<Rightarrow> exn + string" where
  "strftime_Ymd t =
     (if datetime_ok t
      then Inr (dec (ts_year t) @ ''-'' @ pad2 (ts_month t) @ ''-'' @ pad2 (ts_day t))
      else Inl out_of_range)"

text \<open>
  The scalars that label and fill a table, as pandas holds them. \<open>'v\<close> stands for the
  floating-point numbers other than NaN, and \<open>of_int\<close> for the float of an integer. A NaN is
  a float object that equals nothing, itself included: \<open>SNaN i\<close> is the NaN object number
  \<open>i\<close>. Iterating over a float index makes a new object for every label.
\<close>

datatype 'v scalar =
    SNone
  | SNaN nat
  | SNaT
  | SBool bool
  | SInt int
  | SFloat 'v
  | SStr string
  | SStamp timestamp

text \<open>\<^verbatim>\<open>pd.isna(value)\<close> on a scalar\<close>

fun isna :: "'v scalar \<Rightarrow> bool" where
  "isna SNone = True"
| "isna (SNaN _) = True"
| "isna SNaT = True"
| "isna _ = False"

text \<open>
  When are two scalars the same \<^verbatim>\<open>dict\<close> key? Python compares \<^verbatim>\<open>bool\<close>, \<^verbatim>\<open>int\<close> and
  \<^verbatim>\<open>float\<close> by number (\<^verbatim>\<open>1\<close>, \<^verbatim>\<open>1.0\<close> and \<^verbatim>\<open>True\<close> are one key), and tells two NaN
  apart unless they are one object. \<open>dict_key\<close> maps a scalar to the representative of its
  key: two scalars are the same key when their representatives are equal.
\<close>

fun dict_key :: "'v::ring_char_0 scalar \<Rightarrow> 'v scalar" where
  "dict_key (SBool b) = SFloat (if b then 1 else 0)"
| "dict_key (SInt n) = SFloat (of_int n)"
| "dict_key x = x"

text \<open>
  The labels of a pandas axis are looked up in the same way, except that every NaN matches
  every NaN.
\<close>

fun label_key :: "'v::ring_char_0 scalar \<Rightarrow> 'v scalar" where
  "label_key (SNaN _) = SNaN 0"
| "label_key x = dict_key x"

text \<open>
  Structured values (decoded JSON, and what \<^verbatim>\<open>json.dumps\<close> receives). A \<^verbatim>\<open>dict\<close> is
  an association list in insertion order whose keys are pairwise distinct.
\<close>

datatype 'v pyval =
    Scalar "'v scalar"
  | PList "'v pyval list"
  | PDict "('v scalar \<times> 'v pyval) list"

fun type_name :: "'v pyval \<Rightarrow> string" where
  "type_name (Scalar SNone) = ''NoneType''"
| "type_name (Scalar (SNaN _)) = ''float''"
| "type_name (Scalar SNaT) = ''NaTType''"
| "type_name (Scalar (SBool _)) = ''bool''"
| "type_name (Scalar (SInt _)) = ''int''"
| "type_name (Scalar (SFloat _)) = ''float''"
| "type_name (Scalar (SStr _)) = ''str''"
| "type_name (Scalar (SStamp _)) = ''Timestamp''"
| "type_name (PList _) = ''list''"
| "type_name (PDict _) = ''dict''"

text \<open>
  \<^verbatim>\<open>obj.get(key, default)\<close>: only a \<^verbatim>\<open>dict\<close> has the method; on anything else the
  attribute lookup raises.
\<close>

definition py_get :: "'v pyval \<Rightarrow> string \<Rightarrow> 'v pyval \<Rightarrow> exn + 'v pyval" where
  "py_get obj key dflt =
     (case obj of
        PDict d \<Rightarrow> Inr (case map_of d (SStr key) of Some v \<Rightarrow> v | None \<Rightarrow> dflt)
      | _ \<Rightarrow> Inl (Exception ''AttributeError''
                (quote (type_name obj) @ '' object has no attribute '' @ quote ''get'')))"

text \<open>
  \<^verbatim>\<open>d[k] = v\<close>: an existing key keeps its place and takes the new value, a new key goes
  to the end. \<open>setitem\<close> is the assignment for a \<^verbatim>\<open>dict\<close> whose keys are strings, which are
  the same key when they are equal; \<open>setitem_scalar\<close> is the one for keys that are scalars,
  where the key already stored stays and \<open>dict_key\<close> decides what the same key is.
\<close>

primrec setitem :: "(string \<times> 'a) list \<Rightarrow> string \<Rightarrow> 'a \<Rightarrow> (string \<times> 'a) list" where
  "setitem [] k v = [(k, v)]"
| "setitem (p # ps) k v = (if fst p = k then (fst p, v) # ps else p # setitem ps k v)"

primrec setitem_scalar ::
  "('v::ring_char_0 scalar \<times> 'a) list \<Rightarrow> 'v scalar \<Rightarrow> 'a \<Rightarrow> ('v scalar \<times> 'a) list" where
  "setitem_scalar [] k v = [(k, v)]"
| "setitem_scalar (p # ps) k v =
     (if dict_key (fst p) = dict_key k then (fst p, v) # ps else p # setitem_scalar ps k v)"

text \<open>\<^verbatim>\<open>sep.join(parts)\<close>\<close>

fun join :: "string \<Rightarrow> string list \<Rightarrow> string" where
  "join sep [] = []"
| "join sep [x] = x"
| "join sep (x # y # ys) = x @ sep @ join sep (y # ys)"

section \<open>pandas tables\<close>

text \<open>
  A \<^verbatim>\<open>DataFrame\<close> as pandas holds it: row labels, column labels, and the cell of row \<open>i\<close>
  and column \<open>j\<close> (by position). Labels may repeat on either axis.
\<close>

record 'v frame =
  index :: "'v scalar list"
  columns :: "'v scalar list"
  cell :: "nat \<Rightarrow> nat \<Rightarrow> 'v scalar"

text \<open>The positions of the columns that the label \<open>c\<close> selects.\<close>

definition positions :: "'v::ring_char_0 frame \<Rightarrow> 'v scalar \<Rightarrow> nat list" where
  "positions df c =
     filter (\<lambda>j. label_key (columns df ! j) = label_key c) [0..<length (columns df)]"

text \<open>The (row label, value) pairs of the column at position \<open>j\<close>: \<^verbatim>\<open>Series.items()\<close>.\<close>

definition series :: "'v frame \<Rightarrow> nat \<Rightarrow> ('v scalar \<times> 'v scalar) list" where
  "series df j = map (\<lambda>i. (index df ! i, cell df i j)) [0..<length (index df)]"

text \<open>
  \<^verbatim>\<open>df[column]\<close>: a \<^verbatim>\<open>Series\<close> when one column carries the label, a \<^verbatim>\<open>DataFrame\<close> of
  the columns that carry it when several do.
\<close>

datatype 'v selection = Series "('v scalar \<times> 'v scalar) list" | SubFrame "nat list"

definition getitem :: "'v::ring_char_0 frame \<Rightarrow> 'v scalar \<Rightarrow> exn + 'v selection" where
  "getitem df c =
     (case positions df c of
        [] \<Rightarrow> Inl (Exception ''KeyError'' [])
      | [j] \<Rightarrow> Inr (Series (series df j))
      | js \<Rightarrow> Inr (SubFrame js))"

text \<open>
  \<^verbatim>\<open>df.reset_index(names=name)\<close>: the row labels become the first column, called \<open>name\<close>,
  and the rows are numbered from 0; pandas refuses to insert a column whose label exists.
\<close>

definition reset_index :: "string \<Rightarrow> 'v frame \<Rightarrow> exn + 'v frame" where
  "reset_index name df =
     (if SStr name \<in> set (columns df)
      then Inl (Exception ''ValueError'' (''cannot insert '' @ name @ '', already exists''))
      else Inr \<lparr> index = map (\<lambda>i. SInt (int i)) [0..<length (index df)],
                 columns = SStr name # columns df,
                 cell = (\<lambda>i j. case j of 0 \<Rightarrow> index df ! i | Suc j' \<Rightarrow> cell df i j') \<rparr>)"

text \<open>
  The records of \<^verbatim>\<open>to_json(orient="records")\<close>: one per row, a value for each column in
  column order.
\<close>

definition records :: "'v frame \<Rightarrow> ('v scalar \<times> 'v scalar) list list" where
  "records df =
     map (\<lambda>i. map (\<lambda>j. (columns df ! j, cell df i j)) [0..<length (columns df)])
       [0..<length (index df)]"

definition records_value :: "('v scalar \<times> 'v scalar) list list \<Rightarrow> 'v pyval" where
  "records_value rs = PList (map (\<lambda>r. PDict (map (\<lambda>(k, v). (k, Scalar v)) r)) rs)"

section \<open>The provider and the libraries\<close>

text \<open>
  The handle \<^verbatim>\<open>yf.Ticker(ticker)\<close>. Each property is fetched when it is read, and the read
  may raise. \<^verbatim>\<open>news\<close> is read twice in one call: \<open>news c n\<close> is what read number \<open>n\<close> gives.
\<close>

record 'v company =
  isin :: "exn + string option"
  history :: "string \<Rightarrow> string \<Rightarrow> exn + 'v frame"
  info :: "exn + (string \<times> 'v pyval) list"
  news :: "nat \<Rightarrow> exn + 'v pyval list"
  actions :: "exn + 'v frame"
  income_stmt :: "exn + 'v frame"
  quarterly_income_stmt :: "exn + 'v frame"
  balance_sheet :: "exn + 'v frame"
  quarterly_balance_sheet :: "exn + 'v frame"
  cashflow :: "exn + 'v frame"
  quarterly_cashflow :: "exn + 'v frame"
  major_holders :: "exn + 'v frame"
  recommendations :: "exn + 'v frame"

text \<open>
  What the server takes from outside its own file: the provider's constructor, the two JSON
  writers (\<^verbatim>\<open>json.dumps\<close>, which raises on a value it cannot write, and the writer inside
  \<^verbatim>\<open>DataFrame.to_json\<close>, which receives the \<^verbatim>\<open>date_format\<close> argument), Python's \<^verbatim>\<open>str\<close>
  on a value that is not a string, and whether \<^verbatim>\<open>format\<close> of an enum member is its
  \<^verbatim>\<open>str\<close> (\<^verbatim>\<open>Class.member\<close>, Python 3.11 and later) or the mixed-in string value (earlier).
\<close>

record 'v libs =
  yf_Ticker :: "string \<Rightarrow> exn + 'v company"
  json_dumps :: "'v pyval \<Rightarrow> exn + string"
  pandas_dumps :: "string option \<Rightarrow> 'v pyval \<Rightarrow> string"
  py_str :: "'v pyval \<Rightarrow> string"
  enum_format_is_str :: bool

text \<open>\<^verbatim>\<open>f"{x}"\<close> for a value \<open>x\<close>\<close>

definition fmt :: "'v libs \<Rightarrow> 'v pyval \<Rightarrow> string" where
  "fmt libs x = (case x of Scalar (SStr s) \<Rightarrow> s | _ \<Rightarrow> py_str libs x)"

text \<open>
  \<^verbatim>\<open>df.to_json(orient="records", date_format=...)\<close>: pandas refuses a table whose column
  labels are not unique, and hands the records to its writer.
\<close>

definition to_json :: "'v::ring_char_0 libs \<Rightarrow> string option \<Rightarrow> 'v frame \<Rightarrow> exn + string" where
  "to_json libs date_format df =
     (if distinct (map label_key (columns df))
      then Inr (pandas_dumps libs date_format (records_value (records df)))
      else Inl (Exception ''ValueError''
             (''DataFrame columns must be unique for orient='' @ quote ''records'' @ ''.'')))"

section \<open>Enumerations\<close>

datatype FinancialType =
    FT_income_stmt
  | FT_quarterly_income_stmt
  | FT_balance_sheet
  | FT_quarterly_balance_sheet
  | FT_cashflow
  | FT_quarterly_cashflow

fun FinancialType_value :: "FinancialType \<Rightarrow> string" where
  "FinancialType_value FT_income_stmt = ''income_stmt''"
| "FinancialType_value FT_quarterly_income_stmt = ''quarterly_income_stmt''"
| "FinancialType_value FT_balance_sheet = ''balance_sheet''"
| "FinancialType_value FT_quarterly_balance_sheet = ''quarterly_balance_sheet''"
| "FinancialType_value FT_cashflow = ''cashflow''"
| "FinancialType_value FT_quarterly_cashflow = ''quarterly_cashflow''"

datatype HolderType =
    HT_major_holders
  | HT_institutional_holders
  | HT_mutualfund_holders
  | HT_insider_transactions
  | HT_insider_purchases
  | HT_insider_roster_holders

fun HolderType_value :: "HolderType \<Rightarrow> string" where
  "HolderType_value HT_major_holders = ''major_holders''"
| "HolderType_value HT_institutional_holders = ''institutional_holders''"
| "HolderType_value HT_mutualfund_holders = ''mutualfund_holders''"
| "HolderType_value HT_insider_transactions = ''insider_transactions''"
| "HolderType_value HT_insider_purchases = ''insider_purchases''"
| "HolderType_value HT_insider_roster_holders = ''insider_roster_holders''"

datatype RecommendationType = RT_recommendations | RT_upgrades_downgrades

fun RecommendationType_value :: "RecommendationType \<Rightarrow> string" where
  "RecommendationType_value RT_recommendations = ''recommendations''"
| "RecommendationType_value RT_upgrades_downgrades = ''upgrades_downgrades''"

text \<open>
  \<^verbatim>\<open>f"{FinancialType.member}"\<close>. The member's name and its value are spelled alike for
  every member of this enumeration.
\<close>

definition FinancialType_format :: "'v libs \<Rightarrow> FinancialType \<Rightarrow> string" where
  "FinancialType_format libs m =
     (if enum_format_is_str libs then ''FinancialType.'' @ FinancialType_value m
      else FinancialType_value m)"

section \<open>Tool entry points\<close>

text \<open>
  What a call does besides returning: the provider properties it reads and the lines it
  prints, in order. A call ends by returning a string to the host or by an exception that
  leaves the entry point.
\<close>

datatype property =
    Isin
  | History
  | Info
  | News
  | Actions
  | Income_stmt
  | Quarterly_income_stmt
  | Balance_sheet
  | Quarterly_balance_sheet
  | Cashflow
  | Quarterly_cashflow
  | Major_holders
  | Recommendations

datatype event = Fetch property | Print string

datatype outcome = Returned string | Raised exn

definition not_found :: "string \<Rightarrow> string" where
  "not_found ticker = ''Company ticker '' @ ticker @ '' not found.''"

definition error_text :: "string \<Rightarrow> string \<Rightarrow> exn \<Rightarrow> string" where
  "error_text action ticker e = ''Error: '' @ action @ '' for '' @ ticker @ '': '' @ exn_msg e"

text \<open>
  The block each tool but \<^verbatim>\<open>get_stock_actions\<close> opens with:
  \<^verbatim>\<open>
  try:
      if company.isin is None:
          print(f"Company ticker {ticker} not found.")
          return f"Company ticker {ticker} not found."
  except Exception as e:
      print(f"Error: <action> for {ticker}: {e}")
      return f"Error: <action> for {ticker}: {e}"
  \<close>
  \<open>Inr (Some s)\<close> is the string the tool prints and returns at once, \<open>Inr None\<close> lets it go
  on, \<open>Inl e\<close> is an exception the handler does not catch.
\<close>

definition isin_check :: "string \<Rightarrow> string \<Rightarrow> 'v company \<Rightarrow> exn + string option" where
  "isin_check action ticker company =
     (case isin company of
        Inl e \<Rightarrow> if caught e then Inr (Some (error_text action ticker e)) else Inl e
      | Inr None \<Rightarrow> Inr (Some (not_found ticker))
      | Inr (Some _) \<Rightarrow> Inr None)"

subsection \<open>\<^verbatim>\<open>get_historical_stock_prices\<close>\<close>

text \<open>
  \<open>period\<close> and \<open>interval\<close> are the arguments after the defaults \<^verbatim>\<open>"1mo"\<close> and \<^verbatim>\<open>"1d"\<close>
  have been filled in; both go to the provider unchecked.
\<close>

definition get_historical_stock_prices ::
  "'v::ring_char_0 libs \<Rightarrow> string \<Rightarrow> string \<Rightarrow> string \<Rightarrow> event list \<times> outcome" where
  "get_historical_stock_prices libs ticker period interval =
     (case yf_Ticker libs ticker of
        Inl e \<Rightarrow> ([], Raised e)
      | Inr company \<Rightarrow>
         (case isin_check ''getting historical stock prices'' ticker company of
            Inl e \<Rightarrow> ([Fetch Isin], Raised e)
          | Inr (Some s) \<Rightarrow> ([Fetch Isin, Print s], Returned s)
          | Inr None \<Rightarrow>
             (case then_do (history company period interval) (\<lambda>hist_data.
                   then_do (reset_index ''Date'' hist_data) (\<lambda>hist_data.
                   to_json libs (Some ''iso'') hist_data)) of
                Inl e \<Rightarrow> ([Fetch Isin, Fetch History], Raised e)
              | Inr hist_data \<Rightarrow> ([Fetch Isin, Fetch History], Returned hist_data))))"

subsection \<open>\<^verbatim>\<open>get_stock_info\<close>\<close>

definition relevant_keys :: "string list" where
  "relevant_keys =
     [''symbol'', ''longName'', ''shortName'', ''sector'', ''industry'',
      ''website'', ''currency'',
      ''marketCap'', ''trailingPE'', ''forwardPE'', ''priceToBook'',
      ''trailingEps'', ''forwardEps'', ''bookValue'',
      ''earningsGrowth'', ''revenueGrowth'', ''netIncomeToCommon'',
      ''profitMargins'', ''grossMargins'', ''operatingMargins'',
      ''returnOnAssets'', ''returnOnEquity'',
      ''totalRevenue'', ''totalCash'', ''totalDebt'', ''debtToEquity'',
      ''currentRatio'', ''quickRatio'',
      ''dividendRate'', ''dividendYield'', ''payoutRatio'',
      ''trailingAnnualDividendRate'', ''trailingAnnualDividendYield'',
      ''currentPrice'', ''fiftyDayAverage'', ''twoHundredDayAverage'',
      ''fiftyTwoWeekLow'', ''fiftyTwoWeekHigh'', ''regularMarketChangePercent'',
      ''fiftyTwoWeekChangePercent'', ''volume'', ''averageVolume'',
      ''averageDailyVolume3Month'', ''beta'']"

text \<open>
  \<^verbatim>\<open>{k: v for k, v in info.items() if k in relevant_keys}\<close>: the comprehension stores
  the kept pairs one after the other into a new \<^verbatim>\<open>dict\<close>.
\<close>

fun trimmed_info ::
  "(string \<times> 'a) list \<Rightarrow> (string \<times> 'a) list \<Rightarrow> (string \<times> 'a) list" where
  "trimmed_info [] acc = acc"
| "trimmed_info ((k, v) # items) acc =
     (if k \<in> set relevant_keys then trimmed_info items (setitem acc k v)
      else trimmed_info items acc)"

definition info_value :: "(string \<times> 'v pyval) list \<Rightarrow> 'v pyval" where
  "info_value d = PDict (map (\<lambda>(k, v). (SStr k, v)) d)"

definition get_stock_info :: "'v libs \<Rightarrow> string \<Rightarrow> event list \<times> outcome" where
  "get_stock_info libs ticker =
     (case yf_Ticker libs ticker of
        Inl e \<Rightarrow> ([], Raised e)
      | Inr company \<Rightarrow>
         (case isin_check ''getting stock information'' ticker company of
            Inl e \<Rightarrow> ([Fetch Isin], Raised e)
          | Inr (Some s) \<Rightarrow> ([Fetch Isin, Print s], Returned s)
          | Inr None \<Rightarrow>
             (case then_do (info company) (\<lambda>info.
                   json_dumps libs (info_value (trimmed_info info []))) of
                Inl e \<Rightarrow> ([Fetch Isin, Fetch Info], Raised e)
              | Inr s \<Rightarrow> ([Fetch Isin, Fetch Info], Returned s))))"

subsection \<open>\<^verbatim>\<open>get_yahoo_finance_news\<close>\<close>

definition nl :: string where
  "nl = [CHR 0x0A]"

text \<open>
  One round of the loop over the news items: \<open>None\<close> when the item is not a story, the
  formatted block when it is.
\<close>

definition news_block :: "'v libs \<Rightarrow> 'v pyval \<Rightarrow> exn + string option" where
  "news_block libs item =
     then_do (py_get item ''content'' (PDict [])) (\<lambda>c.
     then_do (py_get c ''contentType'' (Scalar (SStr []))) (\<lambda>content_type.
     if content_type = Scalar (SStr ''STORY'') then
       then_do (py_get item ''content'' (PDict [])) (\<lambda>c.
       then_do (py_get c ''title'' (Scalar (SStr []))) (\<lambda>title.
       then_do (py_get item ''content'' (PDict [])) (\<lambda>c.
       then_do (py_get c ''summary'' (Scalar (SStr []))) (\<lambda>summary.
       then_do (py_get item ''content'' (PDict [])) (\<lambda>c.
       then_do (py_get c ''description'' (Scalar (SStr []))) (\<lambda>description.
       then_do (py_get item ''content'' (PDict [])) (\<lambda>c.
       then_do (py_get c ''canonicalUrl'' (PDict [])) (\<lambda>u.
       then_do (py_get u ''url'' (Scalar (SStr []))) (\<lambda>url.
       Inr (Some (''Title: '' @ fmt libs title @ nl @ ''Summary: '' @ fmt libs summary @ nl
                  @ ''Description: '' @ fmt libs description @ nl
                  @ ''URL: '' @ fmt libs url)))))))))))
     else Inr None))"

fun news_loop :: "'v libs \<Rightarrow> 'v pyval list \<Rightarrow> string list \<Rightarrow> exn + string list" where
  "news_loop libs [] news_list = Inr news_list"
| "news_loop libs (item # rest) news_list =
     (case news_block libs item of
        Inl e \<Rightarrow> Inl e
      | Inr None \<Rightarrow> news_loop libs rest news_list
      | Inr (Some block) \<Rightarrow> news_loop libs rest (news_list @ [block]))"

definition no_news :: "string \<Rightarrow> string" where
  "no_news ticker = ''No news found for company that searched with '' @ ticker @ '' ticker.''"

definition get_yahoo_finance_news :: "'v libs \<Rightarrow> string \<Rightarrow> event list \<times> outcome" where
  "get_yahoo_finance_news libs ticker =
     (case yf_Ticker libs ticker of
        Inl e \<Rightarrow> ([], Raised e)
      | Inr company \<Rightarrow>
         (case isin_check ''getting news'' ticker company of
            Inl e \<Rightarrow> ([Fetch Isin], Raised e)
          | Inr (Some s) \<Rightarrow> ([Fetch Isin, Print s], Returned s)
          | Inr None \<Rightarrow>
             (case news company 0 of
                Inl e \<Rightarrow>
                  if caught e
                  then ([Fetch Isin, Fetch News, Print (error_text ''getting news'' ticker e)],
                        Returned (error_text ''getting news'' ticker e))
                  else ([Fetch Isin, Fetch News], Raised e)
              | Inr _ \<Rightarrow>
                 (case then_do (news company 1) (\<lambda>items. news_loop libs items []) of
                    Inl e \<Rightarrow> ([Fetch Isin, Fetch News, Fetch News], Raised e)
                  | Inr news_list \<Rightarrow>
                      if news_list = []
                      then ([Fetch Isin, Fetch News, Fetch News, Print (no_news ticker)],
                            Returned (no_news ticker))
                      else ([Fetch Isin, Fetch News, Fetch News],
                            Returned (join (nl @ nl) news_list))))))"

subsection \<open>\<^verbatim>\<open>get_stock_actions\<close>\<close>

text \<open>
  Here the constructor call alone stands inside \<^verbatim>\<open>try\<close>; \<^verbatim>\<open>company.isin\<close> is never read.
\<close>

definition get_stock_actions :: "'v::ring_char_0 libs \<Rightarrow> string \<Rightarrow> event list \<times> outcome" where
  "get_stock_actions libs ticker =
     (case yf_Ticker libs ticker of
        Inl e \<Rightarrow>
          if caught e
          then ([Print (error_text ''getting stock actions'' ticker e)],
                Returned (error_text ''getting stock actions'' ticker e))
          else ([], Raised e)
      | Inr company \<Rightarrow>
         (case then_do (actions company) (\<lambda>actions_df.
               then_do (reset_index ''Date'' actions_df) (\<lambda>actions_df.
               to_json libs (Some ''iso'') actions_df)) of
            Inl e \<Rightarrow> ([Fetch Actions], Raised e)
          | Inr s \<Rightarrow> ([Fetch Actions], Returned s)))"

subsection \<open>\<^verbatim>\<open>get_financial_statement\<close>\<close>

text \<open>The \<^verbatim>\<open>if\<close>/\<^verbatim>\<open>elif\<close> chain: the property read and its result, or neither.\<close>

definition select_statement ::
  "'v company \<Rightarrow> string \<Rightarrow> (property \<times> (exn + 'v frame)) option" where
  "select_statement company financial_type =
     (if financial_type = FinancialType_value FT_income_stmt
        then Some (Income_stmt, income_stmt company)
      else if financial_type = FinancialType_value FT_quarterly_income_stmt
        then Some (Quarterly_income_stmt, quarterly_income_stmt company)
      else if financial_type = FinancialType_value FT_balance_sheet
        then Some (Balance_sheet, balance_sheet company)
      else if financial_type = FinancialType_value FT_quarterly_balance_sheet
        then Some (Quarterly_balance_sheet, quarterly_balance_sheet company)
      else if financial_type = FinancialType_value FT_cashflow
        then Some (Cashflow, cashflow company)
      else if financial_type = FinancialType_value FT_quarterly_cashflow
        then Some (Quarterly_cashflow, quarterly_cashflow company)
      else None)"

definition invalid_financial_type :: "'v libs \<Rightarrow> string \<Rightarrow> string" where
  "invalid_financial_type libs financial_type =
     ''Error: invalid financial type '' @ financial_type
     @ ''. Please use one of the following: ''
     @ FinancialType_format libs FT_income_stmt @ '', ''
     @ FinancialType_format libs FT_quarterly_income_stmt @ '', ''
     @ FinancialType_format libs FT_balance_sheet @ '', ''
     @ FinancialType_format libs FT_quarterly_balance_sheet @ '', ''
     @ FinancialType_format libs FT_cashflow @ '', ''
     @ FinancialType_format libs FT_quarterly_cashflow @ ''.''"

text \<open>
  \<^verbatim>\<open>
  if isinstance(column, pd.Timestamp):
      date_str = column.strftime("%Y-%m-%d")
  else:
      date_str = str(column)
  \<close>
\<close>

definition date_str :: "'v libs \<Rightarrow> 'v scalar \<Rightarrow> exn + string" where
  "date_str libs column =
     (case column of SStamp t \<Rightarrow> strftime_Ymd t | _ \<Rightarrow> Inr (fmt libs (Scalar column)))"

text \<open>The inner loop, \<open>label\<close> for the source's \<^verbatim>\<open>index\<close>:
  \<^verbatim>\<open>date_obj[index] = None if pd.isna(value) else value\<close>\<close>

fun add_metrics ::
  "('v::ring_char_0 scalar \<times> 'v scalar) list \<Rightarrow> ('v scalar \<times> 'v scalar) list
   \<Rightarrow> ('v scalar \<times> 'v scalar) list" where
  "add_metrics date_obj [] = date_obj"
| "add_metrics date_obj ((label, val) # items) =
     add_metrics (setitem_scalar date_obj label (if isna val then SNone else val)) items"

text \<open>
  The outer loop over \<^verbatim>\<open>financial_statement.columns\<close>: the date string first (\<open>date\<close>
  for the source's \<^verbatim>\<open>date_str\<close>), then the record, filled from \<^verbatim>\<open>financial_statement[column].items()\<close>. When the label selects several
  columns, \<^verbatim>\<open>.items()\<close> yields whole columns, \<^verbatim>\<open>pd.isna\<close> of one is a \<^verbatim>\<open>Series\<close>, and
  taking its truth value in the conditional expression raises.
\<close>

definition ambiguous :: exn where
  "ambiguous = Exception ''ValueError''
     ''The truth value of a Series is ambiguous. Use a.empty, a.bool(), a.item(), a.any() or a.all().''"

fun statement_loop ::
  "'v::ring_char_0 libs \<Rightarrow> 'v frame \<Rightarrow> 'v scalar list \<Rightarrow> ('v scalar \<times> 'v scalar) list list
   \<Rightarrow> exn + ('v scalar \<times> 'v scalar) list list" where
  "statement_loop libs df [] result = Inr result"
| "statement_loop libs df (column # rest) result =
     (case date_str libs column of
        Inl e \<Rightarrow> Inl e
      | Inr date \<Rightarrow>
         (case getitem df column of
            Inl e \<Rightarrow> Inl e
          | Inr (SubFrame js) \<Rightarrow> Inl ambiguous
          | Inr (Series items) \<Rightarrow>
              statement_loop libs df rest
                (result @ [add_metrics [(SStr ''date'', SStr date)] items])))"

definition statement_records ::
  "'v::ring_char_0 libs \<Rightarrow> 'v frame \<Rightarrow> exn + ('v scalar \<times> 'v scalar) list list" where
  "statement_records libs financial_statement =
     statement_loop libs financial_statement (columns financial_statement) []"

definition get_financial_statement ::
  "'v::ring_char_0 libs \<Rightarrow> string \<Rightarrow> string \<Rightarrow> event list \<times> outcome" where
  "get_financial_statement libs ticker financial_type =
     (case yf_Ticker libs ticker of
        Inl e \<Rightarrow> ([], Raised e)
      | Inr company \<Rightarrow>
         (case isin_check ''getting financial statement'' ticker company of
            Inl e \<Rightarrow> ([Fetch Isin], Raised e)
          | Inr (Some s) \<Rightarrow> ([Fetch Isin, Print s], Returned s)
          | Inr None \<Rightarrow>
             (case select_statement company financial_type of
                None \<Rightarrow> ([Fetch Isin], Returned (invalid_financial_type libs financial_type))
              | Some (p, fetched) \<Rightarrow>
                 (case then_do fetched (\<lambda>financial_statement.
                       then_do (statement_records libs financial_statement) (\<lambda>result.
                       json_dumps libs (records_value result))) of
                    Inl e \<Rightarrow> ([Fetch Isin, Fetch p], Raised e)
                  | Inr s \<Rightarrow> ([Fetch Isin, Fetch p], Returned s)))))"

subsection \<open>\<^verbatim>\<open>get_holder_info\<close>\<close>

definition get_holder_info :: "'v::ring_char_0 libs \<Rightarrow> string \<Rightarrow> event list \<times> outcome" where
  "get_holder_info libs ticker =
     (case yf_Ticker libs ticker of
        Inl e \<Rightarrow> ([], Raised e)
      | Inr company \<Rightarrow>
         (case isin_check ''getting holder info'' ticker company of
            Inl e \<Rightarrow> ([Fetch Isin], Raised e)
          | Inr (Some s) \<Rightarrow> ([Fetch Isin, Print s], Returned s)
          | Inr None \<Rightarrow>
             (case then_do (major_holders company) (\<lambda>df.
                   then_do (reset_index ''metric'' df) (\<lambda>df.
                   to_json libs None df)) of
                Inl e \<Rightarrow> ([Fetch Isin, Fetch Major_holders], Raised e)
              | Inr s \<Rightarrow> ([Fetch Isin, Fetch Major_holders], Returned s))))"

subsection \<open>\<^verbatim>\<open>get_recommendations\<close>\<close>

definition get_recommendations :: "'v::ring_char_0 libs \<Rightarrow> string \<Rightarrow> event list \<times> outcome" where
  "get_recommendations libs ticker =
     (case yf_Ticker libs ticker of
        Inl e \<Rightarrow> ([], Raised e)
      | Inr company \<Rightarrow>
         (case isin_check ''getting recommendations'' ticker company of
            Inl e \<Rightarrow> ([Fetch Isin], Raised e)
          | Inr (Some s) \<Rightarrow> ([Fetch Isin, Print s], Returned s)
          | Inr None \<Rightarrow>
             (case then_do (recommendations company) (\<lambda>df. to_json libs None df) of
                Inl e \<Rightarrow>
                  if caught e
                  then ([Fetch Isin, Fetch Recommendations,
                         Print (error_text ''getting recommendations'' ticker e)],
                        Returned (error_text ''getting recommendations'' ticker e))
                  else ([Fetch Isin, Fetch Recommendations], Raised e)
              | Inr s \<Rightarrow> ([Fetch Isin, Fetch Recommendations], Returned s))))"

section \<open>Notions the properties are stated with\<close>

subsection \<open>Financial statements\<close>

text \<open>
  The provider accessor that belongs to a statement kind, by name and by what reading it
  gives, and the six legal values as the documentation of the tool lists them.
\<close>

fun accessor :: "FinancialType \<Rightarrow> property" where
  "accessor FT_income_stmt = Income_stmt"
| "accessor FT_quarterly_income_stmt = Quarterly_income_stmt"
| "accessor FT_balance_sheet = Balance_sheet"
| "accessor FT_quarterly_balance_sheet = Quarterly_balance_sheet"
| "accessor FT_cashflow = Cashflow"
| "accessor FT_quarterly_cashflow = Quarterly_cashflow"

fun read_statement :: "'v company \<Rightarrow> FinancialType \<Rightarrow> exn + 'v frame" where
  "read_statement company FT_income_stmt = income_stmt company"
| "read_statement company FT_quarterly_income_stmt = quarterly_income_stmt company"
| "read_statement company FT_balance_sheet = balance_sheet company"
| "read_statement company FT_quarterly_balance_sheet = quarterly_balance_sheet company"
| "read_statement company FT_cashflow = cashflow company"
| "read_statement company FT_quarterly_cashflow = quarterly_cashflow company"

definition legal_values :: "string list" where
  "legal_values = [''income_stmt'', ''quarterly_income_stmt'', ''balance_sheet'',
     ''quarterly_balance_sheet'', ''cashflow'', ''quarterly_cashflow'']"

text \<open>
  What becomes of the table that was read: the column records are built and written with
  \<^verbatim>\<open>json.dumps\<close>; each of the three steps may raise.
\<close>

definition statement_outcome :: "'v::ring_char_0 libs \<Rightarrow> exn + 'v frame \<Rightarrow> outcome" where
  "statement_outcome libs fetched =
     (case fetched of
        Inl e \<Rightarrow> Raised e
      | Inr financial_statement \<Rightarrow>
         (case statement_records libs financial_statement of
            Inl e \<Rightarrow> Raised e
          | Inr result \<Rightarrow>
             (case json_dumps libs (records_value result) of
                Inl e \<Rightarrow> Raised e
              | Inr s \<Rightarrow> Returned s)))"

text \<open>
  \<open>null_if_missing\<close> is the value stored for a cell. \<open>lookup d k\<close> is \<^verbatim>\<open>d.get(k)\<close> for a
  \<^verbatim>\<open>dict\<close> whose keys are scalars: the value stored under the key that \<open>k\<close> is.
\<close>

definition null_if_missing :: "'v scalar \<Rightarrow> 'v scalar" where
  "null_if_missing v = (if isna v then SNone else v)"

definition lookup :: "('v::ring_char_0 scalar \<times> 'a) list \<Rightarrow> 'v scalar \<Rightarrow> 'a option" where
  "lookup d k = map_of (map (\<lambda>(k', v). (dict_key k', v)) d) (dict_key k)"

text \<open>
  The date string of a column label once \<^verbatim>\<open>strftime\<close> has accepted it.
\<close>

definition date_text :: "'v libs \<Rightarrow> 'v scalar \<Rightarrow> string" where
  "date_text libs column =
     (case column of
        SStamp t \<Rightarrow> dec (ts_year t) @ ''-'' @ pad2 (ts_month t) @ ''-'' @ pad2 (ts_day t)
      | _ \<Rightarrow> fmt libs (Scalar column))"

text \<open>The timestamps among the labels are dates that \<^verbatim>\<open>datetime\<close> has.\<close>

definition stamps_ok :: "'v scalar list \<Rightarrow> bool" where
  "stamps_ok labels = list_all (\<lambda>c. case c of SStamp t \<Rightarrow> datetime_ok t | _ \<Rightarrow> True) labels"

text \<open>
  The record the loop builds for the column at position \<open>j\<close>, once its date string is
  there.
\<close>

definition date_obj_of ::
  "'v::ring_char_0 libs \<Rightarrow> 'v frame \<Rightarrow> nat \<Rightarrow> ('v scalar \<times> 'v scalar) list" where
  "date_obj_of libs df j =
     add_metrics [(SStr ''date'', SStr (date_text libs (columns df ! j)))] (series df j)"

subsection \<open>News items\<close>

text \<open>
  \<open>entry obj key\<close> is the value stored under \<open>key\<close> when \<open>obj\<close> is a \<^verbatim>\<open>dict\<close> that has
  the key. \<open>content\<close> and \<open>canonical_url\<close> are the nested objects of an item, the empty
  \<^verbatim>\<open>dict\<close> when absent; \<open>text_field\<close> is a field as text, the empty string when absent.
\<close>

definition is_dict :: "'v pyval \<Rightarrow> bool" where
  "is_dict obj = (case obj of PDict d \<Rightarrow> True | _ \<Rightarrow> False)"

definition entry :: "'v pyval \<Rightarrow> string \<Rightarrow> 'v pyval option" where
  "entry obj key = (case obj of PDict d \<Rightarrow> map_of d (SStr key) | _ \<Rightarrow> None)"

definition content :: "'v pyval \<Rightarrow> 'v pyval" where
  "content item = (case entry item ''content'' of Some c \<Rightarrow> c | None \<Rightarrow> PDict [])"

definition canonical_url :: "'v pyval \<Rightarrow> 'v pyval" where
  "canonical_url item =
     (case entry (content item) ''canonicalUrl'' of Some u \<Rightarrow> u | None \<Rightarrow> PDict [])"

definition is_story :: "'v pyval \<Rightarrow> bool" where
  "is_story item = (entry (content item) ''contentType'' = Some (Scalar (SStr ''STORY'')))"

definition text_field :: "'v libs \<Rightarrow> 'v pyval \<Rightarrow> string \<Rightarrow> string" where
  "text_field libs obj key = (case entry obj key of Some v \<Rightarrow> fmt libs v | None \<Rightarrow> [])"

definition story_block :: "'v libs \<Rightarrow> 'v pyval \<Rightarrow> string" where
  "story_block libs item =
     ''Title: '' @ text_field libs (content item) ''title'' @ nl
     @ ''Summary: '' @ text_field libs (content item) ''summary'' @ nl
     @ ''Description: '' @ text_field libs (content item) ''description'' @ nl
     @ ''URL: '' @ text_field libs (canonical_url item) ''url''"

text \<open>
  The nesting \<^verbatim>\<open>.get\<close> relies on: the item is a \<^verbatim>\<open>dict\<close>, what it stores under
  \<open>content\<close> is one, and for a story what that stores under \<open>canonicalUrl\<close> is one. A missing
  key is no violation.
\<close>

definition nested_dicts :: "'v pyval \<Rightarrow> bool" where
  "nested_dicts item =
     (is_dict item \<and> is_dict (content item) \<and> (\<not> is_story item \<or> is_dict (canonical_url item)))"

section \<open>Concrete providers\<close>

text \<open>
  Inputs for the evaluations below. Table values of type \<open>int\<close> stand for floating-point
  numbers; \<open>stub_dumps\<close> stands for a JSON writer and writes the empty list and the empty
  object as JSON does.
\<close>

definition empty_frame :: "int frame" where
  "empty_frame = \<lparr> index = [], columns = [], cell = (\<lambda>i j. SNaN 0) \<rparr>"

definition rate_limited :: exn where
  "rate_limited = Exception ''YFRateLimitError'' ''Too Many Requests. Rate limited. Try after a while.''"

definition stub_dumps :: "int pyval \<Rightarrow> string" where
  "stub_dumps v = (case v of PList [] \<Rightarrow> ''[]'' | PDict [] \<Rightarrow> ''{}'' | _ \<Rightarrow> ''...'')"

text \<open>A ticker that resolves and whose tables are all empty.\<close>

definition listed_company :: "int company" where
  "listed_company =
     \<lparr> isin = Inr (Some ''US0378331005''),
       history = (\<lambda>period interval. Inr empty_frame),
       info = Inr [],
       news = (\<lambda>n. Inr []),
       actions = Inr empty_frame,
       income_stmt = Inr empty_frame,
       quarterly_income_stmt = Inr empty_frame,
       balance_sheet = Inr empty_frame,
       quarterly_balance_sheet = Inr empty_frame,
       cashflow = Inr empty_frame,
       quarterly_cashflow = Inr empty_frame,
       major_holders = Inr empty_frame,
       recommendations = Inr empty_frame \<rparr>"

definition libs_of :: "int company \<Rightarrow> int libs" where
  "libs_of company =
     \<lparr> yf_Ticker = (\<lambda>ticker. Inr company),
       json_dumps = (\<lambda>v. Inr (stub_dumps v)),
       pandas_dumps = (\<lambda>date_format v. stub_dumps v),
       py_str = (\<lambda>v. ''?''),
       enum_format_is_str = True \<rparr>"

text \<open>
  Statements: one with a missing cell, a column labelled by a timestamp and one by a string;
  one with a row named \<open>date\<close>; one with a repeated row name; one whose row names \<open>1\<close> and
  \<open>True\<close> are one key; one whose two rows are labelled by two NaN objects; one with a repeated
  column label; one dated in the year 999 and one in the year 10000.
\<close>

definition sample_statement :: "int frame" where
  "sample_statement =
     \<lparr> index = [SStr ''Total Revenue'', SStr ''EBIT''],
       columns = [SStamp (Timestamp 2024 9 30 0), SStr ''TTM''],
       cell = (\<lambda>i j. [[SFloat 391, SFloat 383], [SNaN 0, SFloat 114]] ! i ! j) \<rparr>"

definition date_row_statement :: "int frame" where
  "date_row_statement =
     \<lparr> index = [SStr ''date''],
       columns = [SStamp (Timestamp 2024 9 30 0)],
       cell = (\<lambda>i j. SFloat 5) \<rparr>"

definition repeated_row_statement :: "int frame" where
  "repeated_row_statement =
     \<lparr> index = [SStr ''EBIT'', SStr ''EBIT''],
       columns = [SStamp (Timestamp 2024 9 30 0)],
       cell = (\<lambda>i j. [SFloat 1, SFloat 2] ! i) \<rparr>"

definition one_and_true_statement :: "int frame" where
  "one_and_true_statement =
     \<lparr> index = [SInt 1, SBool True],
       columns = [SStr ''FY''],
       cell = (\<lambda>i j. [SFloat 10, SFloat 20] ! i) \<rparr>"

definition nan_rows_statement :: "int frame" where
  "nan_rows_statement =
     \<lparr> index = [SNaN 0, SNaN 1],
       columns = [SStr ''FY''],
       cell = (\<lambda>i j. [SFloat 10, SFloat 20] ! i) \<rparr>"

definition repeated_column_statement :: "int frame" where
  "repeated_column_statement =
     \<lparr> index = [SStr ''EBIT''],
       columns = [SStr ''2024'', SStr ''2024''],
       cell = (\<lambda>i j. SFloat 1) \<rparr>"

definition year_999_statement :: "int frame" where
  "year_999_statement =
     \<lparr> index = [SStr ''EBIT''],
       columns = [SStamp (Timestamp 999 3 4 0)],
       cell = (\<lambda>i j. SFloat 1) \<rparr>"

definition year_10000_statement :: "int frame" where
  "year_10000_statement =
     \<lparr> index = [SStr ''EBIT''],
       columns = [SStamp (Timestamp 10000 1 1 0)],
       cell = (\<lambda>i j. SFloat 1) \<rparr>"

text \<open>An info bag.\<close>

definition sample_bag :: "(string \<times> int pyval) list" where
  "sample_bag =
     [(''address1'', Scalar (SStr ''One Apple Park Way'')),
      (''symbol'', Scalar (SStr ''AAPL'')),
      (''maxAge'', Scalar (SInt 86400)),
      (''beta'', Scalar (SFloat 1))]"

text \<open>
  News items: stories with some and with all of the four fields, a video whose
  \<open>canonicalUrl\<close> is \<^verbatim>\<open>None\<close>, an item without \<open>content\<close>; then an item whose \<open>content\<close> is
  \<^verbatim>\<open>None\<close> and a story whose \<open>canonicalUrl\<close> is \<^verbatim>\<open>None\<close>.
\<close>

definition title_only_story :: "int pyval" where
  "title_only_story =
     PDict [(SStr ''id'', Scalar (SStr ''a1'')),
            (SStr ''content'',
             PDict [(SStr ''contentType'', Scalar (SStr ''STORY'')),
                    (SStr ''title'', Scalar (SStr ''Apple rises''))])]"

definition full_story :: "int pyval" where
  "full_story =
     PDict [(SStr ''content'',
             PDict [(SStr ''contentType'', Scalar (SStr ''STORY'')),
                    (SStr ''title'', Scalar (SStr ''T'')),
                    (SStr ''summary'', Scalar (SStr ''S'')),
                    (SStr ''description'', Scalar (SStr ''D'')),
                    (SStr ''canonicalUrl'', PDict [(SStr ''url'', Scalar (SStr ''https://x.test/a''))])])]"

definition video_item :: "int pyval" where
  "video_item =
     PDict [(SStr ''content'',
             PDict [(SStr ''contentType'', Scalar (SStr ''VIDEO'')),
                    (SStr ''canonicalUrl'', Scalar SNone)])]"

definition bare_item :: "int pyval" where
  "bare_item = PDict [(SStr ''id'', Scalar (SStr ''b2''))]"

definition null_content_item :: "int pyval" where
  "null_content_item = PDict [(SStr ''content'', Scalar SNone)]"

definition null_url_story :: "int pyval" where
  "null_url_story =
     PDict [(SStr ''content'',
             PDict [(SStr ''contentType'', Scalar (SStr ''STORY'')),
                    (SStr ''title'', Scalar (SStr ''T'')),
                    (SStr ''canonicalUrl'', Scalar SNone)])]"

section \<open>Basic facts\<close>

lemma then_do_Inr: "then_do (Inr x) f = f x"
  by (simp add: then_do_def)

lemma then_do_Inl: "then_do (Inl e) f = Inl e"
  by (simp add: then_do_def)

lemma isin_check_resolved:
  "isin company = Inr (Some i) \<Longrightarrow> isin_check action ticker company = Inr None"
  by (simp add: isin_check_def)

lemma upt2: "[0..<2] = [0, Suc 0]"
  by (simp add: upt_rec)

lemma dec_small: "n < 10 \<Longrightarrow> dec n = [digit n]"
  by (subst dec.simps) simp

lemma dec_large: "10 \<le> n \<Longrightarrow> dec n = dec (n div 10) @ [digit n]"
  by (subst dec.simps) simp

lemma days_in_month_le: "days_in_month y m \<le> 31"
  by (simp add: days_in_month_def)

lemma setitem_fresh: "k \<notin> fst ` set d \<Longrightarrow> setitem d k v = d @ [(k, v)]"
  by (induction d) auto

section \<open>Exceptions that leave an entry point\<close>

text \<open>
  C1 (the code departs from it). The claim: every tool returns a string for every input, and
  a provider fetch that raises is turned into a descriptive string. In the code only
  \<^verbatim>\<open>get_recommendations\<close> wraps its fetch in \<^verbatim>\<open>try\<close>; in \<^verbatim>\<open>get_financial_statement\<close> the
  statement accessor is read outside any handler. For a ticker that resolves and whose
  \<^verbatim>\<open>income_stmt\<close> read raises, the call ends with that exception and returns nothing.
\<close>

theorem get_financial_statement_fetch_raises:
  "get_financial_statement (libs_of (listed_company \<lparr> income_stmt := Inl rate_limited \<rparr>))
     ''AAPL'' ''income_stmt''
   = ([Fetch Isin, Fetch Income_stmt], Raised rate_limited)"
  by (simp add: get_financial_statement_def libs_of_def listed_company_def isin_check_def
      select_statement_def then_do_def)

text \<open>
  The sibling that does catch: once the handle exists, \<^verbatim>\<open>get_recommendations\<close> returns a
  string, unless what was raised is no \<^verbatim>\<open>Exception\<close>.
\<close>

lemma get_recommendations_returns:
  assumes "yf_Ticker libs ticker = Inr company"
  shows "(\<exists>s. snd (get_recommendations libs ticker) = Returned s)
    \<or> (\<exists>e. snd (get_recommendations libs ticker) = Raised e \<and> \<not> caught e)"
  using assms
  by (auto simp: get_recommendations_def isin_check_def split: sum.splits option.splits)

section \<open>Tickers that do not resolve\<close>

text \<open>
  C2 (the code departs from it). The claim: for a ticker whose \<^verbatim>\<open>isin\<close> lookup yields
  \<^verbatim>\<open>None\<close>, each of the seven tools returns \<open>Company ticker {ticker} not found.\<close> before any
  data fetch. \<^verbatim>\<open>get_stock_actions\<close> never reads \<^verbatim>\<open>isin\<close>: it fetches the actions table and
  returns its JSON, here that of an empty table, where \<^verbatim>\<open>get_stock_info\<close> on the same
  ticker returns the not-found string without a data fetch.
\<close>

theorem get_stock_actions_skips_isin:
  "get_stock_actions (libs_of (listed_company \<lparr> isin := Inr None \<rparr>)) ''INVALIDTICKERXYZ''
     = ([Fetch Actions], Returned ''[]'')
   \<and> get_stock_info (libs_of (listed_company \<lparr> isin := Inr None \<rparr>)) ''INVALIDTICKERXYZ''
     = ([Fetch Isin, Print ''Company ticker INVALIDTICKERXYZ not found.''],
        Returned ''Company ticker INVALIDTICKERXYZ not found.'')"
  by (simp add: get_stock_actions_def get_stock_info_def libs_of_def listed_company_def
      isin_check_def not_found_def then_do_def reset_index_def to_json_def records_def
      records_value_def empty_frame_def stub_dumps_def)

text \<open>
  The six tools that do check: each prints and returns the not-found string, and reads nothing
  but \<^verbatim>\<open>isin\<close>.
\<close>

lemma unresolved_ticker_not_found:
  assumes "yf_Ticker libs ticker = Inr company" and "isin company = Inr None"
  shows "get_historical_stock_prices libs ticker period interval
           = ([Fetch Isin, Print (not_found ticker)], Returned (not_found ticker))"
    and "get_stock_info libs ticker
           = ([Fetch Isin, Print (not_found ticker)], Returned (not_found ticker))"
    and "get_yahoo_finance_news libs ticker
           = ([Fetch Isin, Print (not_found ticker)], Returned (not_found ticker))"
    and "get_financial_statement libs ticker financial_type
           = ([Fetch Isin, Print (not_found ticker)], Returned (not_found ticker))"
    and "get_holder_info libs ticker
           = ([Fetch Isin, Print (not_found ticker)], Returned (not_found ticker))"
    and "get_recommendations libs ticker
           = ([Fetch Isin, Print (not_found ticker)], Returned (not_found ticker))"
  using assms
  by (simp_all add: get_historical_stock_prices_def get_stock_info_def
      get_yahoo_finance_news_def get_financial_statement_def get_holder_info_def
      get_recommendations_def isin_check_def)

section \<open>Selecting the statement\<close>

lemma range_FinancialType_value: "range FinancialType_value = set legal_values"
proof
  show "range FinancialType_value \<subseteq> set legal_values"
  proof
    fix s assume "s \<in> range FinancialType_value"
    then obtain k where "s = FinancialType_value k" by auto
    then show "s \<in> set legal_values" by (cases k) (simp_all add: legal_values_def)
  qed
  have "FinancialType_value ` {FT_income_stmt, FT_quarterly_income_stmt, FT_balance_sheet,
      FT_quarterly_balance_sheet, FT_cashflow, FT_quarterly_cashflow} \<subseteq> range FinancialType_value"
    by blast
  then show "set legal_values \<subseteq> range FinancialType_value"
    by (simp add: legal_values_def)
qed

lemma select_statement_value:
  "select_statement company (FinancialType_value k) = Some (accessor k, read_statement company k)"
  by (cases k) (simp_all add: select_statement_def)

lemma select_statement_other:
  "financial_type \<notin> set legal_values \<Longrightarrow> select_statement company financial_type = None"
  by (simp add: select_statement_def legal_values_def)

lemma invalid_financial_type_text:
  "invalid_financial_type libs financial_type =
     ''Error: invalid financial type '' @ financial_type
     @ ''. Please use one of the following: ''
     @ join '', '' (map (\<lambda>v. (if enum_format_is_str libs then ''FinancialType.'' else []) @ v)
          legal_values)
     @ ''.''"
  by (simp add: invalid_financial_type_def FinancialType_format_def legal_values_def)

lemma statement_run:
  "(case then_do fetched (\<lambda>financial_statement.
          then_do (statement_records libs financial_statement) (\<lambda>result.
          json_dumps libs (records_value result))) of
      Inl e \<Rightarrow> (evs, Raised e)
    | Inr s \<Rightarrow> (evs, Returned s)) = (evs, statement_outcome libs fetched)"
  by (simp add: then_do_def statement_outcome_def split: sum.splits)

text \<open>
  Once the ticker resolves, \<^verbatim>\<open>get_financial_statement\<close> called with the value of a
  statement kind reads \<^verbatim>\<open>isin\<close> and then the accessor of that kind, once, and no other
  property. Called with any other string it reads no accessor and returns the validation
  message, in which each enum member stands as \<^verbatim>\<open>format\<close> writes it.
\<close>

lemma get_financial_statement_selects:
  assumes "yf_Ticker libs ticker = Inr company" and "isin company = Inr (Some i)"
  shows "get_financial_statement libs ticker (FinancialType_value k)
            = ([Fetch Isin, Fetch (accessor k)], statement_outcome libs (read_statement company k))"
    and "financial_type \<notin> range FinancialType_value \<Longrightarrow>
          get_financial_statement libs ticker financial_type
            = ([Fetch Isin],
               Returned (''Error: invalid financial type '' @ financial_type
                 @ ''. Please use one of the following: ''
                 @ join '', '' (map (\<lambda>v. (if enum_format_is_str libs then ''FinancialType.'' else []) @ v)
                      legal_values)
                 @ ''.''))"
proof -
  show "get_financial_statement libs ticker (FinancialType_value k)
      = ([Fetch Isin, Fetch (accessor k)], statement_outcome libs (read_statement company k))"
    using assms
    by (simp add: get_financial_statement_def isin_check_resolved select_statement_value
        statement_run)
next
  assume "financial_type \<notin> range FinancialType_value"
  then have "financial_type \<notin> set legal_values"
    by (simp add: range_FinancialType_value)
  then show "get_financial_statement libs ticker financial_type
      = ([Fetch Isin],
         Returned (''Error: invalid financial type '' @ financial_type
           @ ''. Please use one of the following: ''
           @ join '', '' (map (\<lambda>v. (if enum_format_is_str libs then ''FinancialType.'' else []) @ v)
                legal_values)
           @ ''.''))"
    using assms
    by (simp add: get_financial_statement_def isin_check_resolved select_statement_other
        invalid_financial_type_text)
qed

text \<open>
  C3 (the code departs from it). The claim: for a string that is no statement kind the
  validation message lists the six legal values verbatim. The message interpolates the enum
  members themselves, and from Python 3.11 on \<^verbatim>\<open>format\<close> of a member of a \<^verbatim>\<open>(str, Enum)\<close>
  class is \<^verbatim>\<open>Class.member\<close>: for the type \<open>quarterly\<close> the message lists
  \<open>FinancialType.income_stmt\<close> and so on, none of which the tool accepts, where the legal
  value is \<open>income_stmt\<close>. The selection of the accessor, the other half of the claim, is as
  the claim says.
\<close>

theorem invalid_type_message_lists_member_names:
  "get_financial_statement (libs_of listed_company) ''AAPL'' ''quarterly''
     = ([Fetch Isin],
        Returned ''Error: invalid financial type quarterly. Please use one of the following: FinancialType.income_stmt, FinancialType.quarterly_income_stmt, FinancialType.balance_sheet, FinancialType.quarterly_balance_sheet, FinancialType.cashflow, FinancialType.quarterly_cashflow.'')
   \<and> ''FinancialType.income_stmt'' \<notin> range FinancialType_value
   \<and> ''income_stmt'' \<in> range FinancialType_value"
proof -
  have a: "get_financial_statement (libs_of listed_company) ''AAPL'' ''quarterly''
     = ([Fetch Isin],
        Returned ''Error: invalid financial type quarterly. Please use one of the following: FinancialType.income_stmt, FinancialType.quarterly_income_stmt, FinancialType.balance_sheet, FinancialType.quarterly_balance_sheet, FinancialType.cashflow, FinancialType.quarterly_cashflow.'')"
    by (simp add: get_financial_statement_def libs_of_def listed_company_def isin_check_def
        select_statement_def invalid_financial_type_def FinancialType_format_def)
  have b: "''FinancialType.income_stmt'' \<notin> range FinancialType_value"
    "''income_stmt'' \<in> range FinancialType_value"
    by (simp_all add: range_FinancialType_value legal_values_def)
  from a b show ?thesis by simp
qed

section \<open>The enumerated parameters\<close>


section \<open>Column records of a statement\<close>

lemma lookup_Nil: "lookup [] k = None"
  by (simp add: lookup_def)

lemma lookup_Cons:
  "lookup ((k', v) # d) k = (if dict_key k' = dict_key k then Some v else lookup d k)"
  by (simp add: lookup_def)

lemma lookup_append:
  "lookup (xs @ ys) k = (case lookup xs k of Some v \<Rightarrow> Some v | None \<Rightarrow> lookup ys k)"
  by (simp add: lookup_def map_add_def split: option.splits)

lemma lookup_setitem_scalar:
  "lookup (setitem_scalar d k v) k'
     = (if dict_key k' = dict_key k then Some v else lookup d k')"
  by (induction d) (auto simp: lookup_Nil lookup_Cons)

lemma keys_setitem_scalar:
  "map dict_key (map fst (setitem_scalar d k v))
     = (if dict_key k \<in> set (map dict_key (map fst d)) then map dict_key (map fst d)
        else map dict_key (map fst d) @ [dict_key k])"
  by (induction d) auto

lemma setitem_scalar_fresh:
  "dict_key k \<notin> set (map dict_key (map fst d)) \<Longrightarrow> setitem_scalar d k v = d @ [(k, v)]"
  by (induction d) auto

lemma distinct_setitem_scalar:
  assumes "distinct (map dict_key (map fst d))"
  shows "distinct (map dict_key (map fst (setitem_scalar d k v)))"
  unfolding keys_setitem_scalar using assms by auto

lemma add_metrics_distinct:
  "distinct (map dict_key (map fst d)) \<Longrightarrow>
   distinct (map dict_key (map fst (add_metrics d items)))"
proof (induction d items rule: add_metrics.induct)
  case (1 date_obj)
  then show ?case by simp
next
  case (2 date_obj label val items)
  have "distinct (map dict_key (map fst
      (setitem_scalar date_obj label (if isna val then SNone else val))))"
    using "2.prems" by (rule distinct_setitem_scalar)
  then show ?case
    using "2.IH" by simp
qed

lemma keyset_setitem_scalar:
  "set (map dict_key (map fst (setitem_scalar d k v)))
     = insert (dict_key k) (set (map dict_key (map fst d)))"
  unfolding keys_setitem_scalar by auto

lemma add_metrics_keys:
  "set (map dict_key (map fst (add_metrics d items)))
     = set (map dict_key (map fst d)) \<union> set (map dict_key (map fst items))"
proof (induction d items rule: add_metrics.induct)
  case (1 date_obj)
  show ?case by simp
next
  case (2 date_obj label val items)
  have "set (map dict_key (map fst (add_metrics date_obj ((label, val) # items))))
      = set (map dict_key (map fst
          (setitem_scalar date_obj label (if isna val then SNone else val))))
        \<union> set (map dict_key (map fst items))"
    using "2.IH" by simp
  also have "\<dots> = insert (dict_key label) (set (map dict_key (map fst date_obj)))
        \<union> set (map dict_key (map fst items))"
    by (simp only: keyset_setitem_scalar)
  finally show ?case by auto
qed

lemma add_metrics_first_key: "d \<noteq> [] \<Longrightarrow> fst (hd (add_metrics d items)) = fst (hd d)"
proof (induction d items rule: add_metrics.induct)
  case (1 date_obj)
  then show ?case by simp
next
  case (2 date_obj label val items)
  have "setitem_scalar date_obj label v \<noteq> []
      \<and> fst (hd (setitem_scalar date_obj label v)) = fst (hd date_obj)" for v
    using "2.prems" by (cases date_obj) auto
  with "2.IH" show ?case by simp
qed

lemma add_metrics_lookup:
  "lookup (add_metrics d items) k
     = (case lookup (rev items) k of
          Some v \<Rightarrow> Some (null_if_missing v)
        | None \<Rightarrow> lookup d k)"
proof (induction d items rule: add_metrics.induct)
  case (1 date_obj)
  show ?case by (simp add: lookup_Nil)
next
  case (2 date_obj label val items)
  show ?case
    by (simp add: "2.IH" lookup_setitem_scalar lookup_append lookup_Cons lookup_Nil
        null_if_missing_def split: option.splits)
qed

lemma add_metrics_fresh:
  "distinct (map dict_key (map fst d) @ map dict_key (map fst items)) \<Longrightarrow>
   add_metrics d items = d @ map (\<lambda>(label, v). (label, null_if_missing v)) items"
proof (induction d items rule: add_metrics.induct)
  case (1 date_obj)
  show ?case by simp
next
  case (2 date_obj label val items)
  from "2.prems" have fresh: "dict_key label \<notin> set (map dict_key (map fst date_obj))" by auto
  have s: "setitem_scalar date_obj label (if isna val then SNone else val)
      = date_obj @ [(label, null_if_missing val)]"
    using fresh by (simp add: setitem_scalar_fresh null_if_missing_def)
  from "2.prems"
  have "distinct (map dict_key (map fst (date_obj @ [(label, null_if_missing val)]))
      @ map dict_key (map fst items))"
    by auto
  then show ?case
    using "2.IH" s by simp
qed

lemma series_labels: "map fst (series df j) = index df"
  by (simp add: series_def comp_def map_nth)

lemma positions_set:
  "set (positions df c)
     = {j. j < length (columns df) \<and> label_key (columns df ! j) = label_key c}"
  by (auto simp: positions_def)

lemma positions_distinct: "distinct (positions df c)"
  by (simp add: positions_def)

lemma singleton_list: "distinct xs \<Longrightarrow> set xs = {x} \<Longrightarrow> xs = [x]"
  by (cases xs) (auto simp: insert_eq_iff dest: subset_singletonD)

lemma positions_unique:
  assumes "distinct (map label_key (columns df))" and "j < length (columns df)"
  shows "positions df (columns df ! j) = [j]"
proof -
  have "i < length (columns df) \<Longrightarrow> label_key (columns df ! i) = label_key (columns df ! j)
      \<Longrightarrow> i = j" for i
    using assms nth_eq_iff_index_eq [of "map label_key (columns df)" i j] by simp
  then have "set (positions df (columns df ! j)) = {j}"
    using assms(2) by (auto simp: positions_set)
  with positions_distinct show ?thesis by (rule singleton_list)
qed

lemma date_str_ok:
  "stamps_ok cs \<Longrightarrow> c \<in> set cs \<Longrightarrow> date_str libs c = Inr (date_text libs c)"
  by (cases c)
    (auto simp: stamps_ok_def list_all_iff date_str_def date_text_def strftime_Ymd_def)

lemma date_str_Inr: "date_str libs c = Inr d \<Longrightarrow> d = date_text libs c \<and> stamps_ok [c]"
  by (cases c)
    (auto simp: stamps_ok_def date_str_def date_text_def strftime_Ymd_def split: if_splits)

lemma statement_loop_unique:
  "stamps_ok cs \<Longrightarrow> \<forall>c \<in> set cs. \<exists>j. positions df c = [j] \<Longrightarrow>
   statement_loop libs df cs result
     = Inr (result @ map (\<lambda>c. add_metrics [(SStr ''date'', SStr (date_text libs c))]
                              (series df (hd (positions df c)))) cs)"
proof (induction cs arbitrary: result)
  case Nil
  show ?case by simp
next
  case (Cons c cs)
  from Cons.prems obtain j where j: "positions df c = [j]" by auto
  from Cons.prems have rest: "stamps_ok cs" "\<forall>c \<in> set cs. \<exists>j. positions df c = [j]"
    by (simp_all add: stamps_ok_def)
  have d: "date_str libs c = Inr (date_text libs c)"
    using Cons.prems(1) by (simp add: date_str_ok)
  show ?case
    by (simp add: d getitem_def j Cons.IH [OF rest])
qed

lemma statement_loop_success:
  "statement_loop libs df cs result = Inr rs \<Longrightarrow>
   stamps_ok cs \<and> (\<forall>c \<in> set cs. \<exists>j. positions df c = [j])"
proof (induction cs arbitrary: result)
  case Nil
  show ?case by (simp add: stamps_ok_def)
next
  case (Cons c cs)
  from Cons.prems obtain d where d: "date_str libs c = Inr d"
    by (cases "date_str libs c") auto
  from Cons.prems d obtain items where g: "getitem df c = Inr (Series items)"
    by (cases "getitem df c") (auto split: selection.splits)
  then obtain j where j: "positions df c = [j]"
    by (auto simp: getitem_def split: list.splits)
  from Cons.prems d g
  have "statement_loop libs df cs (result @ [add_metrics [(SStr ''date'', SStr d)] items]) = Inr rs"
    by simp
  then have "stamps_ok cs \<and> (\<forall>c \<in> set cs. \<exists>j. positions df c = [j])"
    by (rule Cons.IH)
  moreover from d have "stamps_ok [c]" by (simp add: date_str_Inr)
  ultimately show ?case using j by (simp add: stamps_ok_def)
qed

text \<open>
  The loop succeeds exactly on the tables whose column labels are pairwise distinct and whose
  timestamps among them \<^verbatim>\<open>strftime\<close> accepts, and then gives one record per column, in
  column order.
\<close>

lemma statement_records_distinct:
  assumes "distinct (map label_key (columns df))" and "stamps_ok (columns df)"
  shows "statement_records libs df = Inr (map (date_obj_of libs df) [0..<length (columns df)])"
proof -
  have u: "\<forall>c \<in> set (columns df). \<exists>j. positions df c = [j]"
    using assms(1) by (auto simp: in_set_conv_nth positions_unique)
  have "map (date_obj_of libs df) [0..<length (columns df)]
      = map (\<lambda>j. add_metrics [(SStr ''date'', SStr (date_text libs (columns df ! j)))]
                 (series df (hd (positions df (columns df ! j))))) [0..<length (columns df)]"
    by (rule map_cong) (simp_all add: positions_unique [OF assms(1)] date_obj_of_def)
  also have "\<dots> = map (\<lambda>c. add_metrics [(SStr ''date'', SStr (date_text libs c))]
                 (series df (hd (positions df c)))) (map ((!) (columns df)) [0..<length (columns df)])"
    by (simp add: comp_def)
  also have "\<dots> = map (\<lambda>c. add_metrics [(SStr ''date'', SStr (date_text libs c))]
                 (series df (hd (positions df c)))) (columns df)"
    by (simp only: map_nth)
  finally show ?thesis
    using statement_loop_unique [OF assms(2) u, of libs "[]"] by (simp add: statement_records_def)
qed

lemma statement_records_success:
  assumes "statement_records libs df = Inr rs"
  shows "distinct (map label_key (columns df)) \<and> stamps_ok (columns df)"
proof -
  from assms have s: "stamps_ok (columns df)"
    and u: "\<forall>c \<in> set (columns df). \<exists>j. positions df c = [j]"
    using statement_loop_success [of libs df "columns df" "[]" rs]
    by (simp_all add: statement_records_def)
  have "i = j" if "i < length (columns df)" "j < length (columns df)"
    "label_key (columns df ! i) = label_key (columns df ! j)" for i j
  proof -
    from that(1) have "columns df ! i \<in> set (columns df)" by simp
    with u obtain k where k: "positions df (columns df ! i) = [k]" by blast
    from that have "i \<in> set (positions df (columns df ! i))" "j \<in> set (positions df (columns df ! i))"
      by (simp_all add: positions_set)
    with k show ?thesis by simp
  qed
  then have "distinct (map label_key (columns df))"
    by (auto simp: distinct_conv_nth)
  with s show ?thesis by simp
qed

lemma dict_key_str: "dict_key x = SStr s \<longleftrightarrow> x = SStr s"
  by (cases x) auto

lemma pad2_digits: "n < 100 \<Longrightarrow> pad2 n = [digit (n div 10), digit n]"
  by (cases "n < 10") (simp_all add: pad2_def dec_small dec_large digit_def)

lemma dec_four:
  assumes "1000 \<le> n" and "n \<le> 9999"
  shows "dec n = [digit (n div 1000), digit (n div 100), digit (n div 10), digit n]"
proof -
  have a: "dec n = dec (n div 10) @ [digit n]"
    using assms by (simp add: dec_large)
  have e1: "n div 10 div 10 = n div 100" and e2: "n div 100 div 10 = n div 1000"
    using div_mult2_eq [of n 10 10] div_mult2_eq [of n 100 10] by simp_all
  have "10 \<le> n div 10" and "10 \<le> n div 100"
    using assms by simp_all
  then have b: "dec (n div 10) = dec (n div 100) @ [digit (n div 10)]"
    and c: "dec (n div 100) = dec (n div 1000) @ [digit (n div 100)]"
    using dec_large [of "n div 10"] dec_large [of "n div 100"] by (simp_all only: e1 e2)
  have d: "dec (n div 1000) = [digit (n div 1000)]"
    using assms by (simp add: dec_small)
  show ?thesis by (simp add: a b c d)
qed

lemma date_text_stamp:
  assumes "datetime_ok t" and "1000 \<le> ts_year t"
  shows "date_text libs (SStamp t)
     = [digit (ts_year t div 1000), digit (ts_year t div 100), digit (ts_year t div 10),
        digit (ts_year t), CHR ''-'', digit (ts_month t div 10), digit (ts_month t),
        CHR ''-'', digit (ts_day t div 10), digit (ts_day t)]"
proof -
  from assms have y: "dec (ts_year t)
      = [digit (ts_year t div 1000), digit (ts_year t div 100), digit (ts_year t div 10),
         digit (ts_year t)]"
    by (intro dec_four) (simp_all add: datetime_ok_def)
  from assms(1) have "ts_month t < 100"
    by (simp add: datetime_ok_def)
  moreover from assms(1) have "ts_day t < 100"
    using days_in_month_le [of "ts_year t" "ts_month t"] by (simp add: datetime_ok_def)
  ultimately have m: "pad2 (ts_month t) = [digit (ts_month t div 10), digit (ts_month t)]"
    and d: "pad2 (ts_day t) = [digit (ts_day t div 10), digit (ts_day t)]"
    by (simp_all add: pad2_digits)
  show ?thesis by (simp add: date_text_def y m d)
qed

lemmas statement_eval =
  statement_records_def getitem_def positions_def series_def date_str_def strftime_Ymd_def
  datetime_ok_def days_in_month_def leap_def pad2_def dec_small dec_large digit_def fmt_def upt2

text \<open>
  C5, as stated, fails. The claim: for every statement table each record starts with the
  date as \<open>YYYY-MM-DD\<close> and has one entry per row, and no table is an error. A row named
  \<open>date\<close> replaces the date; of two rows with one name a single entry remains, and so it is
  for the rows \<open>1\<close> and \<open>True\<close>, which are one key; a table with a repeated column label
  raises; a column of the year 999 is dated \<open>999-03-04\<close>; a column of the year 10000 raises.
\<close>

theorem statement_records_overwrite_counterexample:
  "statement_records (libs_of listed_company) date_row_statement
     = Inr [[(SStr ''date'', SFloat 5)]]
   \<and> statement_records (libs_of listed_company) repeated_row_statement
     = Inr [[(SStr ''date'', SStr ''2024-09-30''), (SStr ''EBIT'', SFloat 2)]]
   \<and> statement_records (libs_of listed_company) one_and_true_statement
     = Inr [[(SStr ''date'', SStr ''FY''), (SInt 1, SFloat 20)]]
   \<and> isl (statement_records (libs_of listed_company) repeated_column_statement)
   \<and> statement_records (libs_of listed_company) year_999_statement
     = Inr [[(SStr ''date'', SStr ''999-03-04''), (SStr ''EBIT'', SFloat 1)]]
   \<and> isl (statement_records (libs_of listed_company) year_10000_statement)"
  by (simp add: statement_eval date_row_statement_def repeated_row_statement_def
      one_and_true_statement_def repeated_column_statement_def year_999_statement_def
      year_10000_statement_def)

text \<open>
  C5, amended. For every statement table whose column labels are pairwise distinct, whose
  timestamps among them are dates of the years 1 to 9999, and whose row names are pairwise
  distinct as keys and none of them \<open>date\<close>: the normalizer gives one record per
  column in column order; a record starts with the field \<open>date\<close>, which is the year in
  decimal, the month and the day of a timestamp label (\<open>YYYY-MM-DD\<close> from the year 1000 on),
  a string label itself, and the \<^verbatim>\<open>str\<close> of any other label; then comes one entry per row
  in row order, with \<open>None\<close> for each missing cell. A table without columns gives the empty
  list.
\<close>

theorem statement_records_shape:
  assumes "distinct (map label_key (columns df))" and "stamps_ok (columns df)"
    and "distinct (map dict_key (index df))" and "SStr ''date'' \<notin> set (index df)"
  shows "statement_records libs df
     = Inr (map (\<lambda>j. (SStr ''date'', SStr (date_text libs (columns df ! j)))
                     # map (\<lambda>i. (index df ! i, if isna (cell df i j) then SNone else cell df i j))
                         [0..<length (index df)])
             [0..<length (columns df)])
   \<and> (\<forall>t. datetime_ok t \<and> 1000 \<le> ts_year t \<longrightarrow>
         date_text libs (SStamp t)
           = [digit (ts_year t div 1000), digit (ts_year t div 100), digit (ts_year t div 10),
              digit (ts_year t), CHR ''-'', digit (ts_month t div 10), digit (ts_month t),
              CHR ''-'', digit (ts_day t div 10), digit (ts_day t)])
   \<and> (\<forall>s. date_text libs (SStr s) = s)
   \<and> (\<forall>c. (\<forall>t. c \<noteq> SStamp t) \<longrightarrow> date_text libs c = fmt libs (Scalar c))
   \<and> (columns df = [] \<longrightarrow> statement_records libs df = Inr [])"
proof -
  have nodate: "SStr ''date'' \<notin> set (map dict_key (index df))"
  proof
    assume "SStr ''date'' \<in> set (map dict_key (index df))"
    then obtain x where x: "x \<in> set (index df)" "dict_key x = SStr ''date''" by auto
    from x(2) have "x = SStr ''date''" by (simp only: dict_key_str)
    with x(1) assms(4) show False by simp
  qed
  have fresh: "distinct (map dict_key (map fst [(SStr ''date'', SStr d)])
      @ map dict_key (map fst (series df j)))" for d j
    using assms(3) nodate by (simp add: series_labels)
  have one: "date_obj_of libs df j
      = (SStr ''date'', SStr (date_text libs (columns df ! j)))
        # map (\<lambda>i. (index df ! i, if isna (cell df i j) then SNone else cell df i j))
            [0..<length (index df)]" for j
    unfolding date_obj_of_def add_metrics_fresh [OF fresh]
    by (simp add: series_def null_if_missing_def comp_def)
  have main: "statement_records libs df
     = Inr (map (\<lambda>j. (SStr ''date'', SStr (date_text libs (columns df ! j)))
                     # map (\<lambda>i. (index df ! i, if isna (cell df i j) then SNone else cell df i j))
                         [0..<length (index df)])
             [0..<length (columns df)])"
    unfolding statement_records_distinct [OF assms(1,2)] using one by simp
  have d1: "datetime_ok t \<and> 1000 \<le> ts_year t \<Longrightarrow> date_text libs (SStamp t)
           = [digit (ts_year t div 1000), digit (ts_year t div 100), digit (ts_year t div 10),
              digit (ts_year t), CHR ''-'', digit (ts_month t div 10), digit (ts_month t),
              CHR ''-'', digit (ts_day t div 10), digit (ts_day t)]" for t
    by (simp add: date_text_stamp)
  have d2: "date_text libs (SStr s) = s" for s
    by (simp add: date_text_def fmt_def)
  have d3: "(\<forall>t. c \<noteq> SStamp t) \<Longrightarrow> date_text libs c = fmt libs (Scalar c)" for c
    by (cases c) (simp_all add: date_text_def)
  have e: "columns df = [] \<Longrightarrow> statement_records libs df = Inr []"
    by (simp add: statement_records_def)
  show ?thesis using main d1 d2 d3 e by blast
qed

theorem statement_records_shape_witness:
  "distinct (map label_key (columns sample_statement)) \<and> stamps_ok (columns sample_statement)
   \<and> distinct (map dict_key (index sample_statement))
   \<and> SStr ''date'' \<notin> set (index sample_statement)
   \<and> statement_records (libs_of listed_company) sample_statement
     = Inr [[(SStr ''date'', SStr ''2024-09-30''), (SStr ''Total Revenue'', SFloat 391),
             (SStr ''EBIT'', SNone)],
            [(SStr ''date'', SStr ''TTM''), (SStr ''Total Revenue'', SFloat 383),
             (SStr ''EBIT'', SFloat 114)]]"
proof -
  have h1: "distinct (map label_key (columns sample_statement))"
    by (simp add: sample_statement_def)
  have h2: "stamps_ok (columns sample_statement)"
    by (simp add: sample_statement_def stamps_ok_def datetime_ok_def days_in_month_def)
  have h3: "distinct (map dict_key (index sample_statement))"
    by (simp add: sample_statement_def)
  have h4: "SStr ''date'' \<notin> set (index sample_statement)" by (simp add: sample_statement_def)
  from statement_records_shape [OF h1 h2 h3 h4, of "libs_of listed_company"]
  have "statement_records (libs_of listed_company) sample_statement
     = Inr (map (\<lambda>j. (SStr ''date'', SStr (date_text (libs_of listed_company) (columns sample_statement ! j)))
                     # map (\<lambda>i. (index sample_statement ! i,
                                   if isna (cell sample_statement i j) then SNone
                                   else cell sample_statement i j))
                         [0..<length (index sample_statement)])
             [0..<length (columns sample_statement)])"
    by blast
  then have "statement_records (libs_of listed_company) sample_statement
     = Inr [[(SStr ''date'', SStr ''2024-09-30''), (SStr ''Total Revenue'', SFloat 391),
             (SStr ''EBIT'', SNone)],
            [(SStr ''date'', SStr ''TTM''), (SStr ''Total Revenue'', SFloat 383),
             (SStr ''EBIT'', SFloat 114)]]"
    by (simp add: sample_statement_def upt2 date_text_def pad2_def dec_small dec_large
        digit_def fmt_def)
  with h1 h2 h3 h4 show ?thesis by simp
qed

text \<open>
  C10. Every record that \<^verbatim>\<open>get_financial_statement\<close> builds, for any table, is one
  key-value map: its first key is \<open>date\<close>, its keys are pairwise distinct as \<^verbatim>\<open>dict\<close> keys,
  they are \<open>date\<close> and the row names, and the value under a key is that of the last row
  whose name is that key, a missing cell as \<open>None\<close>; the date string stays only when no row
  is named \<open>date\<close>.
\<close>

theorem date_obj_last_write_wins:
  assumes "statement_records libs df = Inr rs" and "j < length rs"
  shows "length rs = length (columns df)
     \<and> fst (hd (rs ! j)) = SStr ''date''
     \<and> distinct (map dict_key (map fst (rs ! j)))
     \<and> set (map dict_key (map fst (rs ! j)))
         = insert (SStr ''date'') (set (map dict_key (index df)))
     \<and> (\<forall>k. lookup (rs ! j) k
          = (case lookup (rev (series df j)) k of
               Some v \<Rightarrow> Some (if isna v then SNone else v)
             | None \<Rightarrow> if k = SStr ''date''
                 then Some (SStr (date_text libs (columns df ! j))) else None))"
proof -
  from assms(1) have ok: "distinct (map label_key (columns df))" "stamps_ok (columns df)"
    using statement_records_success by blast+
  from assms(1) have rs: "rs = map (date_obj_of libs df) [0..<length (columns df)]"
    using statement_records_distinct [OF ok, of libs] by simp
  then have len: "length rs = length (columns df)" by simp
  with assms(2) rs have r: "rs ! j = date_obj_of libs df j" by simp
  have first: "fst (hd (date_obj_of libs df j)) = SStr ''date''"
    unfolding date_obj_of_def by (subst add_metrics_first_key) simp_all
  have c: "distinct (map dict_key (map fst (date_obj_of libs df j)))"
    unfolding date_obj_of_def by (rule add_metrics_distinct) simp
  have d: "set (map dict_key (map fst (date_obj_of libs df j)))
      = insert (SStr ''date'') (set (map dict_key (index df)))"
    unfolding date_obj_of_def add_metrics_keys by (simp add: series_labels)
  have e: "lookup (date_obj_of libs df j) k
          = (case lookup (rev (series df j)) k of
               Some v \<Rightarrow> Some (if isna v then SNone else v)
             | None \<Rightarrow> if k = SStr ''date''
                 then Some (SStr (date_text libs (columns df ! j))) else None)" for k
  proof -
    have "(SStr ''date'' = dict_key k) = (k = SStr ''date'')"
      using dict_key_str [of k "''date''"] by auto
    then show ?thesis
      unfolding date_obj_of_def add_metrics_lookup
      by (simp add: null_if_missing_def lookup_Cons lookup_Nil split: option.splits)
  qed
  show ?thesis
    using len first c d e unfolding r by blast
qed

theorem date_obj_last_write_wins_witness:
  "statement_records (libs_of listed_company) one_and_true_statement
       = Inr [[(SStr ''date'', SStr ''FY''), (SInt 1, SFloat 20)]]
   \<and> (0::nat) < length [[(SStr ''date'', SStr ''FY''), (SInt 1, SFloat (20::int))]]
   \<and> lookup [(SStr ''date'', SStr ''FY''), (SInt 1, SFloat (20::int))] (SBool True)
       = Some (SFloat 20)
   \<and> lookup [(SStr ''date'', SStr ''FY''), (SInt 1, SFloat (20::int))] (SStr ''date'')
       = Some (SStr ''FY'')
   \<and> statement_records (libs_of listed_company) nan_rows_statement
       = Inr [[(SStr ''date'', SStr ''FY''), (SNaN 0, SFloat 10), (SNaN 1, SFloat 20)]]"
proof -
  let ?r = "[(SStr ''date'', SStr ''FY''), (SInt 1, SFloat (20::int))]"
  have ev: "statement_records (libs_of listed_company) one_and_true_statement = Inr [?r]"
    by (simp add: statement_eval one_and_true_statement_def)
  have h2: "(0::nat) < length [?r]" by simp
  have nan: "statement_records (libs_of listed_company) nan_rows_statement
       = Inr [[(SStr ''date'', SStr ''FY''), (SNaN 0, SFloat 10), (SNaN 1, SFloat 20)]]"
    by (simp add: statement_eval nan_rows_statement_def)
  from date_obj_last_write_wins [OF ev h2]
  have look: "lookup ([?r] ! 0) k
          = (case lookup (rev (series one_and_true_statement 0)) k of
               Some v \<Rightarrow> Some (if isna v then SNone else v)
             | None \<Rightarrow> if k = SStr ''date''
                 then Some (SStr (date_text (libs_of listed_company)
                        (columns one_and_true_statement ! 0))) else None)" for k
    by blast
  have a: "lookup ?r (SBool True) = Some (SFloat 20)"
    using look [of "SBool True"]
    by (simp add: series_def one_and_true_statement_def upt2 lookup_Cons lookup_Nil)
  have b: "lookup ?r (SStr ''date'') = Some (SStr ''FY'')"
    using look [of "SStr ''date''"]
    by (simp add: series_def one_and_true_statement_def upt2 lookup_Cons lookup_Nil
        date_text_def fmt_def)
  from ev h2 a b nan show ?thesis by simp
qed

section \<open>The info projection\<close>

lemma trimmed_info_filter:
  "distinct (map fst acc @ map fst items) \<Longrightarrow>
   trimmed_info items acc = acc @ filter (\<lambda>(k, v). k \<in> set relevant_keys) items"
proof (induction items arbitrary: acc)
  case Nil
  then show ?case by simp
next
  case (Cons p items)
  obtain k v where p: "p = (k, v)" by (cases p)
  from Cons.prems p have fresh: "k \<notin> fst ` set acc" by auto
  show ?case
  proof (cases "k \<in> set relevant_keys")
    case True
    from Cons.prems p have "distinct (map fst (acc @ [(k, v)]) @ map fst items)" by auto
    then have "trimmed_info items (acc @ [(k, v)])
        = (acc @ [(k, v)]) @ filter (\<lambda>(k, v). k \<in> set relevant_keys) items"
      by (rule Cons.IH)
    with True p fresh show ?thesis by (simp add: setitem_fresh)
  next
    case False
    from Cons.prems p have "distinct (map fst acc @ map fst items)" by auto
    then have "trimmed_info items acc = acc @ filter (\<lambda>(k, v). k \<in> set relevant_keys) items"
      by (rule Cons.IH)
    with False p show ?thesis by simp
  qed
qed

text \<open>
  C7. For every info bag (a \<^verbatim>\<open>dict\<close>: its keys are pairwise distinct) the projection keeps
  exactly the pairs whose key is in the allow-list, in the bag's order and with the bag's
  values; its keys are the bag's keys that the allow-list contains; a bag that shares no key
  with the allow-list gives the empty \<^verbatim>\<open>dict\<close>.
\<close>

theorem trimmed_info_projection:
  assumes "distinct (map fst bag)"
  shows "trimmed_info bag [] = filter (\<lambda>(k, v). k \<in> set relevant_keys) bag
    \<and> set (map fst (trimmed_info bag [])) = set (map fst bag) \<inter> set relevant_keys
    \<and> (\<forall>k. map_of (trimmed_info bag []) k
          = (if k \<in> set relevant_keys then map_of bag k else None))
    \<and> (set (map fst bag) \<inter> set relevant_keys = {} \<longrightarrow> trimmed_info bag [] = [])"
proof -
  have eq: "trimmed_info bag [] = filter (\<lambda>(k, v). k \<in> set relevant_keys) bag"
    using trimmed_info_filter [of "[]" bag] assms by simp
  have keys: "set (map fst (filter (\<lambda>(k, v). k \<in> set relevant_keys) bag))
      = set (map fst bag) \<inter> set relevant_keys"
    by (auto simp: image_iff)
  have look: "map_of (filter (\<lambda>(k, v). k \<in> set relevant_keys) bag) k
      = (if k \<in> set relevant_keys then map_of bag k else None)" for k
    by (induction bag) auto
  have none: "set (map fst bag) \<inter> set relevant_keys = {}
      \<Longrightarrow> filter (\<lambda>(k, v). k \<in> set relevant_keys) bag = []"
    by (auto simp: filter_empty_conv)
  show ?thesis using eq keys look none by simp
qed

theorem trimmed_info_projection_witness:
  "distinct (map fst sample_bag)
   \<and> trimmed_info sample_bag []
      = [(''symbol'', Scalar (SStr ''AAPL'')), (''beta'', Scalar (SFloat 1))]"
proof -
  have h: "distinct (map fst sample_bag)" by (simp add: sample_bag_def)
  from trimmed_info_projection [OF h]
  have "trimmed_info sample_bag [] = filter (\<lambda>(k, v). k \<in> set relevant_keys) sample_bag"
    by blast
  then have "trimmed_info sample_bag []
      = [(''symbol'', Scalar (SStr ''AAPL'')), (''beta'', Scalar (SFloat 1))]"
    by (simp add: sample_bag_def relevant_keys_def)
  with h show ?thesis by simp
qed

text \<open>
  The tool hands this projection to \<^verbatim>\<open>json.dumps\<close>.
\<close>

lemma get_stock_info_projection:
  assumes "yf_Ticker libs ticker = Inr company" and "isin company = Inr (Some i)"
    and "info company = Inr bag"
  shows "get_stock_info libs ticker
     = ([Fetch Isin, Fetch Info],
        case json_dumps libs (info_value (trimmed_info bag [])) of
          Inl e \<Rightarrow> Raised e
        | Inr s \<Rightarrow> Returned s)"
  using assms
  by (simp add: get_stock_info_def isin_check_resolved then_do_Inr split: sum.splits)

section \<open>News\<close>

lemma py_get_dict:
  "is_dict obj \<Longrightarrow>
   py_get obj key dflt = Inr (case entry obj key of Some v \<Rightarrow> v | None \<Rightarrow> dflt)"
  by (cases obj) (simp_all add: is_dict_def py_get_def entry_def)

lemma fmt_empty: "fmt libs (Scalar (SStr [])) = []"
  by (simp add: fmt_def)

lemma news_block_nested:
  assumes "nested_dicts item"
  shows "news_block libs item = Inr (if is_story item then Some (story_block libs item) else None)"
proof -
  from assms have i: "is_dict item" and c: "is_dict (content item)"
    by (simp_all add: nested_dicts_def)
  have g0: "py_get item ''content'' (PDict []) = Inr (content item)"
    using py_get_dict [OF i] by (simp add: content_def)
  have g1: "py_get (content item) key dflt
      = Inr (case entry (content item) key of Some v \<Rightarrow> v | None \<Rightarrow> dflt)" for key dflt
    by (rule py_get_dict [OF c])
  have t: "fmt libs (case entry obj key of Some v \<Rightarrow> v | None \<Rightarrow> Scalar (SStr []))
      = text_field libs obj key" for obj key
    by (simp add: text_field_def fmt_empty split: option.splits)
  show ?thesis
  proof (cases "is_story item")
    case True
    with assms have u: "is_dict (canonical_url item)" by (simp add: nested_dicts_def)
    have g2: "py_get (canonical_url item) ''url'' (Scalar (SStr []))
        = Inr (case entry (canonical_url item) ''url'' of Some v \<Rightarrow> v | None \<Rightarrow> Scalar (SStr []))"
      by (rule py_get_dict [OF u])
    have ct: "(case entry (content item) ''contentType'' of Some v \<Rightarrow> v | None \<Rightarrow> Scalar (SStr []))
        = Scalar (SStr ''STORY'')"
      using True by (simp add: is_story_def)
    have cu: "(case entry (content item) ''canonicalUrl'' of Some v \<Rightarrow> v | None \<Rightarrow> PDict [])
        = canonical_url item"
      by (simp add: canonical_url_def)
    show ?thesis
      using True
      by (simp add: news_block_def then_do_def g0 g1 ct cu g2 t story_block_def)
  next
    case False
    then have ct: "(case entry (content item) ''contentType'' of Some v \<Rightarrow> v | None \<Rightarrow> Scalar (SStr []))
        \<noteq> Scalar (SStr ''STORY'')"
      by (auto simp: is_story_def split: option.splits)
    show ?thesis
      using False by (simp add: news_block_def then_do_def g0 g1 ct)
  qed
qed

lemma news_loop_nested:
  "\<forall>item \<in> set items. nested_dicts item \<Longrightarrow>
   news_loop libs items news_list
     = Inr (news_list @ map (story_block libs) (filter is_story items))"
  by (induction items arbitrary: news_list) (simp_all add: news_block_nested)

text \<open>
  On a list of items nested as \<^verbatim>\<open>.get\<close> needs them, and for a ticker that resolves,
  \<^verbatim>\<open>get_yahoo_finance_news\<close> returns the sentinel when no item is a story, and else the
  blocks of exactly the stories, in order, joined by a blank line, a field being the empty
  string when its key is absent.
\<close>

lemma news_of_nested_items:
  assumes "yf_Ticker libs ticker = Inr company" and "isin company = Inr (Some i)"
    and "news company 0 = Inr first" and "news company 1 = Inr items"
    and "\<forall>item \<in> set items. nested_dicts item"
  shows "get_yahoo_finance_news libs ticker
     = (if filter is_story items = []
        then ([Fetch Isin, Fetch News, Fetch News, Print (no_news ticker)],
              Returned (no_news ticker))
        else ([Fetch Isin, Fetch News, Fetch News],
              Returned (join (nl @ nl) (map (story_block libs) (filter is_story items)))))"
proof -
  have "news_loop libs items [] = Inr (map (story_block libs) (filter is_story items))"
    using news_loop_nested [OF assms(5), of libs "[]"] by simp
  then show ?thesis
    using assms(1-4)
    by (simp add: get_yahoo_finance_news_def isin_check_resolved then_do_def)
qed

text \<open>
  C8 (the code departs from it). The claim: for every list of news items without a story the
  tool returns the sentinel. A default of \<^verbatim>\<open>.get\<close> stands in for a missing key only: on the
  item \<^verbatim>\<open>{"content": None}\<close>, which is no story, \<^verbatim>\<open>news.get("content", {})\<close> is \<^verbatim>\<open>None\<close>
  and the next \<^verbatim>\<open>.get\<close> raises, outside any handler.
\<close>

theorem news_null_content_raises:
  "get_yahoo_finance_news
     (libs_of (listed_company \<lparr> news := (\<lambda>n. Inr [null_content_item]) \<rparr>)) ''AAPL''
   = ([Fetch Isin, Fetch News, Fetch News],
      Raised (Exception ''AttributeError''
        (quote ''NoneType'' @ '' object has no attribute '' @ quote ''get'')))"
  by (simp add: get_yahoo_finance_news_def libs_of_def listed_company_def isin_check_def
      then_do_def news_block_def py_get_def null_content_item_def)

text \<open>
  C9 (the code departs from it). The claim: each of the four fields defaults to the empty
  string when absent at any nesting level, and the function never throws on missing nested
  structure. For a story whose \<open>canonicalUrl\<close> is \<^verbatim>\<open>None\<close> the chain
  \<^verbatim>\<open>.get("canonicalUrl", {}).get("url", "")\<close> raises instead of giving the empty string.
\<close>

theorem news_null_canonical_url_raises:
  "get_yahoo_finance_news
     (libs_of (listed_company \<lparr> news := (\<lambda>n. Inr [null_url_story]) \<rparr>)) ''AAPL''
   = ([Fetch Isin, Fetch News, Fetch News],
      Raised (Exception ''AttributeError''
        (quote ''NoneType'' @ '' object has no attribute '' @ quote ''get'')))"
  by (simp add: get_yahoo_finance_news_def libs_of_def listed_company_def isin_check_def
      then_do_def news_block_def py_get_def null_url_story_def)

end
